theory Spec2Isabelle
  imports Main
begin

section \<open>JavaScript values used by server.js\<close>

text \<open>
  A thrown JavaScript error is a value with a \<open>name\<close> and a \<open>message\<close>;
  \<open>new Error(msg)\<close> has the name \<open>Error\<close>.
\<close>

record js_error =
  name :: string
  message :: string

definition Error :: "string \<Rightarrow> js_error" where
  "Error msg = \<lparr>name = ''Error'', message = msg\<rparr>"

text \<open>
  Truthiness. A string is truthy unless it is empty; a value that may be
  \<open>undefined\<close> (a missing header, an unset environment variable) is
  modelled as a \<open>string option\<close> and is falsy when it is \<open>undefined\<close> or
  the empty string.
\<close>

definition truthy :: "string \<Rightarrow> bool" where
  "truthy s = (s \<noteq> [])"

text \<open>\<open>a || b\<close> on strings, the left operand possibly undefined.\<close>

definition or_else :: "string option \<Rightarrow> string \<Rightarrow> string" where
  "or_else v d = (case v of None \<Rightarrow> d | Some s \<Rightarrow> if truthy s then s else d)"

text \<open>
  \<open>String.prototype.indexOf\<close>, \<open>includes\<close> and \<open>substring\<close> with one
  argument. \<open>indexOf\<close> is the first position at which the needle starts,
  \<open>-1\<close> when there is none; \<open>includes\<close> says whether there is one;
  \<open>substring\<close> clamps its start into the string.
\<close>

fun indexOf :: "string \<Rightarrow> string \<Rightarrow> int" where
  "indexOf [] needle = (if needle = [] then 0 else - 1)"
| "indexOf (x # xs) needle =
     (if take (length needle) (x # xs) = needle then 0
      else (let i = indexOf xs needle in if i < 0 then - 1 else i + 1))"

definition js_includes :: "string \<Rightarrow> string \<Rightarrow> bool" where
  "js_includes s needle = (0 \<le> indexOf s needle)"

definition substring :: "string \<Rightarrow> int \<Rightarrow> string" where
  "substring s start = drop (nat (max 0 start)) s"

text \<open>
  Decimal rendering of a number inside a template literal
  (\<open>`${response.status}`\<close>).
\<close>

definition digit_char :: "nat \<Rightarrow> char" where
  "digit_char d = ''0123456789'' ! d"

function string_of_nat :: "nat \<Rightarrow> string" where
  "string_of_nat n =
     (if n < 10 then [digit_char n]
      else string_of_nat (n div 10) @ [digit_char (n mod 10)])"
  by pat_completeness auto
termination
  by (relation "measure (\<lambda>n. n)") auto

declare string_of_nat.simps [simp del]

section \<open>Observable effects\<close>

text \<open>
  Everything the server does besides computing a value is appended to a
  chronological trace. Handles of abort controllers and of timers are the
  length of the trace at the moment they are created, so a handle is fresh
  with respect to everything recorded before it.
\<close>

type_synonym headers = "(string \<times> string) list"

datatype event =
    ConsoleLog string
  | ConsoleError string
  | NewAbortController nat
  | SetTimeout nat nat nat
  | Fetch string headers nat
  | TimerFired nat
  | Abort nat
  | ClearTimeout nat

text \<open>
  \<open>SetTimeout t ms c\<close>: timer \<open>t\<close> armed to run \<open>controller.abort()\<close> on
  controller \<open>c\<close> after \<open>ms\<close> milliseconds. \<open>Fetch url hs c\<close>: an outbound
  call issued with the signal of controller \<open>c\<close>.

  The timers armed after a trace: set by \<open>setTimeout\<close>, and neither fired
  nor cleared since. \<open>clearTimeout\<close> on a timer that is not armed does
  nothing.
\<close>

fun armed_step :: "nat list \<Rightarrow> event \<Rightarrow> nat list" where
  "armed_step ts (SetTimeout t ms c) = ts @ [t]"
| "armed_step ts (TimerFired t) = removeAll t ts"
| "armed_step ts (ClearTimeout t) = removeAll t ts"
| "armed_step ts _ = ts"

definition armed :: "event list \<Rightarrow> nat list" where
  "armed tr = foldl armed_step [] tr"

fun fetches :: "event list \<Rightarrow> (string \<times> headers \<times> nat) list" where
  "fetches [] = []"
| "fetches (Fetch u hs c # es) = (u, hs, c) # fetches es"
| "fetches (_ # es) = fetches es"

definition fetched_urls :: "event list \<Rightarrow> string list" where
  "fetched_urls tr = map fst (fetches tr)"

definition fetched_headers :: "event list \<Rightarrow> headers list" where
  "fetched_headers tr = map (\<lambda>(u, hs, c). hs) (fetches tr)"

section \<open>Configuration (server.js, lines 7-21)\<close>

definition POKEMON_TCG_API :: string where
  "POKEMON_TCG_API = ''https://api.pokemontcg.io/v2''"

text \<open>
  \<open>API_KEY = process.env.POKEMON_TCG_API_KEY || ''\<close>; the argument is the
  environment variable, \<open>None\<close> when it is unset.
\<close>

definition API_KEY :: "string option \<Rightarrow> string" where
  "API_KEY env_key = or_else env_key ''''"

definition allowedOrigins :: "string list" where
  "allowedOrigins =
     [''https://collection.summitcards.co.uk'',
      ''https://summitcards.co.uk'',
      ''https://www.summitcards.co.uk'',
      ''http://localhost:5173'',
      ''http://localhost:3000'',
      ''http://127.0.0.1:5173'']"

section \<open>The origin callback of the CORS middleware (lines 23-35)\<close>

text \<open>
  The middleware calls the function with the value of the request's
  \<open>Origin\<close> header, \<open>undefined\<close> when the request has none. The result is
  what the function passes to \<open>callback\<close>: \<open>Inr True\<close> for
  \<open>callback(null, true)\<close>, \<open>Inl e\<close> for \<open>callback(e)\<close>. The test
  \<open>!origin\<close> holds for \<open>undefined\<close> and for the empty string. The
  allow-list is a parameter, instantiated with \<open>allowedOrigins\<close> below.
\<close>

definition cors_origin ::
  "string list \<Rightarrow> string option \<Rightarrow> event list \<Rightarrow> (js_error + bool) \<times> event list" where
  "cors_origin allowed origin tr =
     (case origin of
        None \<Rightarrow> (Inr True, tr)
      | Some s \<Rightarrow>
          if \<not> truthy s then (Inr True, tr)
          else if s \<in> set allowed then (Inr True, tr)
          else (Inl (Error ''Not allowed by CORS''),
                tr @ [ConsoleLog (''Blocked origin: '' @ s)]))"

definition origin_gate :: "string option \<Rightarrow> event list \<Rightarrow> (js_error + bool) \<times> event list" where
  "origin_gate = cors_origin allowedOrigins"

section \<open>The forwarding helper (lines 59-98)\<close>

text \<open>
  What the upstream service and the network do is the environment's choice.
  A response carries its status line and what reading its body gives:
  \<open>response.text()\<close> and \<open>response.json()\<close> each either produce a
  value or reject with an error. The parsed payload is opaque (type \<open>'j\<close>):
  the server never looks into it. \<open>response.ok\<close> is true for a status in
  the range 200-299.
\<close>

record 'j response =
  status :: nat
  statusText :: string
  text_result :: "js_error + string"
  json_result :: "js_error + 'j"

definition ok :: "'j response \<Rightarrow> bool" where
  "ok r = (200 \<le> status r \<and> status r \<le> 299)"

text \<open>
  The three ways the awaited \<open>fetch\<close> settles: it resolves with a
  response, it rejects with an error of the transport, or the timer armed
  before it fires first, its callback runs \<open>controller.abort()\<close>, and
  \<open>fetch\<close> rejects with the \<open>AbortError\<close> of the aborted signal.
\<close>

datatype 'j fetch_outcome =
    Resolves "'j response"
  | Rejects js_error
  | TimerFires

definition AbortError :: js_error where
  "AbortError = \<lparr>name = ''AbortError'', message = ''This operation was aborted''\<rparr>"

text \<open>The \<open>catch\<close> block, lines 91-97.\<close>

definition catch_block :: "nat \<Rightarrow> js_error \<Rightarrow> event list \<Rightarrow> (js_error + 'j) \<times> event list" where
  "catch_block timeout err tr =
     (let tr' = tr @ [ClearTimeout timeout] in
      if name err = ''AbortError''
      then (Inl (Error ''Request timeout - Pokemon TCG API took too long to respond''), tr')
      else (Inl err, tr'))"

text \<open>
  \<open>queryParams\<close> is \<open>None\<close> when the caller passes one argument only;
  the default \<open>''\<close> then applies. The promise of \<open>response.json()\<close> is
  returned without being awaited inside the \<open>try\<close>, so its rejection
  reaches the caller without passing through the \<open>catch\<close> block.
\<close>

definition pokemonApiRequest ::
  "string option \<Rightarrow> string \<Rightarrow> string option \<Rightarrow> 'j fetch_outcome \<Rightarrow> event list
     \<Rightarrow> (js_error + 'j) \<times> event list" where
  "pokemonApiRequest env_key endpoint queryParams upstream tr0 =
     (let url = POKEMON_TCG_API @ endpoint @ (case queryParams of None \<Rightarrow> [] | Some q \<Rightarrow> q);
          tr1 = tr0 @ [ConsoleLog (''Fetching: '' @ url)];
          headers = [(''Content-Type'', ''application/json''), (''Accept'', ''application/json'')]
                    @ (if truthy (API_KEY env_key) then [(''X-Api-Key'', API_KEY env_key)] else []);
          controller = length tr1;
          tr2 = tr1 @ [NewAbortController controller];
          timeout = length tr2;
          tr3 = tr2 @ [SetTimeout timeout 30000 controller];
          tr4 = tr3 @ [Fetch url headers controller]
      in case upstream of
           TimerFires \<Rightarrow>
             catch_block timeout AbortError (tr4 @ [TimerFired timeout, Abort controller])
         | Rejects err \<Rightarrow> catch_block timeout err tr4
         | Resolves response \<Rightarrow>
             (let tr5 = tr4 @ [ClearTimeout timeout] in
              if \<not> ok response then
                (case text_result response of
                   Inl err \<Rightarrow> catch_block timeout err tr5
                 | Inr errorText \<Rightarrow>
                     catch_block timeout
                       (Error (''Pokemon TCG API error: '' @ string_of_nat (status response)
                               @ '' '' @ statusText response))
                       (tr5 @ [ConsoleError (''API error response: '' @ errorText)]))
              else (json_result response, tr5)))"

section \<open>Route handlers (lines 39-57 and 100-144)\<close>

text \<open>
  The request as the router hands it to a handler: the raw request target
  \<open>req.url\<close> and, for the by-id routes, the decoded route parameter
  \<open>req.params.id\<close>.
\<close>

record request =
  url :: string
  params_id :: string

datatype 'j json =
    Upstream 'j
  | JString string
  | JObject "(string \<times> 'j json) list"

record 'j reply =
  res_status :: nat
  res_body :: "'j json"

text \<open>
  The \<open>try\<close>/\<open>catch\<close> every forwarding handler wraps around the helper:
  \<open>res.json(data)\<close> answers 200, the \<open>catch\<close> logs and answers 500.
\<close>

definition relay ::
  "string \<Rightarrow> string \<Rightarrow> (js_error + 'j) \<times> event list \<Rightarrow> 'j reply \<times> event list" where
  "relay log_prefix label r =
     (case r of
        (Inr data, tr) \<Rightarrow> (\<lparr>res_status = 200, res_body = Upstream data\<rparr>, tr)
      | (Inl error, tr) \<Rightarrow>
          (\<lparr>res_status = 500,
            res_body = JObject [(''error'', JString label), (''message'', JString (message error))]\<rparr>,
           tr @ [ConsoleError (log_prefix @ '' '' @ message error)]))"

definition inbound_query :: "request \<Rightarrow> string" where
  "inbound_query req =
     (if js_includes (url req) ''?''
      then substring (url req) (indexOf (url req) ''?'')
      else [])"

definition get_api_sets ::
  "string option \<Rightarrow> request \<Rightarrow> 'j fetch_outcome \<Rightarrow> event list \<Rightarrow> 'j reply \<times> event list" where
  "get_api_sets env_key req upstream tr =
     (let queryParams = inbound_query req in
      relay ''Error fetching sets:'' ''Failed to fetch sets''
        (pokemonApiRequest env_key ''/sets'' (Some queryParams) upstream tr))"

definition get_api_sets_id ::
  "string option \<Rightarrow> request \<Rightarrow> 'j fetch_outcome \<Rightarrow> event list \<Rightarrow> 'j reply \<times> event list" where
  "get_api_sets_id env_key req upstream tr =
     relay ''Error fetching set:'' ''Failed to fetch set''
       (pokemonApiRequest env_key (''/sets/'' @ params_id req) None upstream tr)"

definition get_api_cards ::
  "string option \<Rightarrow> request \<Rightarrow> 'j fetch_outcome \<Rightarrow> event list \<Rightarrow> 'j reply \<times> event list" where
  "get_api_cards env_key req upstream tr =
     (let queryParams = inbound_query req in
      relay ''Error fetching cards:'' ''Failed to fetch cards''
        (pokemonApiRequest env_key ''/cards'' (Some queryParams) upstream tr))"

definition get_api_cards_id ::
  "string option \<Rightarrow> request \<Rightarrow> 'j fetch_outcome \<Rightarrow> event list \<Rightarrow> 'j reply \<times> event list" where
  "get_api_cards_id env_key req upstream tr =
     relay ''Error fetching card:'' ''Failed to fetch card''
       (pokemonApiRequest env_key (''/cards/'' @ params_id req) None upstream tr)"

text \<open>
  The body every \<open>catch\<close> of a forwarding handler sends, and the four
  forwarding routes side by side: what each answers to the same request
  under the same upstream outcome.
\<close>

definition error_reply :: "string \<Rightarrow> string \<Rightarrow> 'j reply" where
  "error_reply label detail =
     \<lparr>res_status = 500,
      res_body = JObject [(''error'', JString label), (''message'', JString detail)]\<rparr>"

definition forwarding_replies ::
  "string option \<Rightarrow> request \<Rightarrow> 'j fetch_outcome \<Rightarrow> event list \<Rightarrow> 'j reply list" where
  "forwarding_replies env_key req upstream tr =
     [fst (get_api_sets env_key req upstream tr),
      fst (get_api_sets_id env_key req upstream tr),
      fst (get_api_cards env_key req upstream tr),
      fst (get_api_cards_id env_key req upstream tr)]"

definition error_replies :: "string \<Rightarrow> 'j reply list" where
  "error_replies detail =
     [error_reply ''Failed to fetch sets'' detail,
      error_reply ''Failed to fetch set'' detail,
      error_reply ''Failed to fetch cards'' detail,
      error_reply ''Failed to fetch card'' detail]"

section \<open>The clock and \<open>Date.prototype.toISOString\<close>\<close>

text \<open>
  \<open>new Date()\<close> reads the system clock: a whole number of milliseconds
  since 1970-01-01T00:00:00Z (a clock set before 1970 is outside the model).
  \<open>toISOString\<close> renders that reading in UTC as
  \<open>YYYY-MM-DDTHH:mm:ss.sssZ\<close>, with the expanded year \<open>+YYYYYY\<close> past
  the year 9999: the day number is split into a year and a day of the year
  by running through the years from 1970, the day of the year into a month
  and a day by running through the months.
\<close>

definition isLeap :: "nat \<Rightarrow> bool" where
  "isLeap y = (y mod 4 = 0 \<and> (y mod 100 \<noteq> 0 \<or> y mod 400 = 0))"

definition daysInYear :: "nat \<Rightarrow> nat" where
  "daysInYear y = (if isLeap y then 366 else 365)"

function yearFromDay :: "nat \<Rightarrow> nat \<Rightarrow> nat \<times> nat" where
  "yearFromDay y d =
     (if daysInYear y \<le> d then yearFromDay (Suc y) (d - daysInYear y) else (y, d))"
  by pat_completeness auto
termination
proof (relation "measure (\<lambda>(y, d). d)")
  show "wf (measure (\<lambda>(y, d). d))" by simp
next
  fix y d :: nat
  assume "daysInYear y \<le> d"
  moreover have "0 < daysInYear y"
    by (simp add: daysInYear_def)
  ultimately show "((Suc y, d - daysInYear y), (y, d)) \<in> measure (\<lambda>(y, d). d)"
    by simp
qed

declare yearFromDay.simps [simp del]

definition monthLengths :: "nat \<Rightarrow> nat list" where
  "monthLengths y = [31, if isLeap y then 29 else 28, 31, 30, 31, 30, 31, 31, 30, 31, 30, 31]"

fun monthFromDay :: "nat list \<Rightarrow> nat \<Rightarrow> nat \<Rightarrow> nat \<times> nat" where
  "monthFromDay [] m d = (m, d)"
| "monthFromDay (l # ls) m d = (if l \<le> d then monthFromDay ls (Suc m) (d - l) else (m, d))"

text \<open>\<open>String(n).padStart(w, '0')\<close>.\<close>

definition pad :: "nat \<Rightarrow> nat \<Rightarrow> string" where
  "pad w n = (let s = string_of_nat n in replicate (w - length s) (CHR ''0'') @ s)"

record utc_fields =
  year :: nat
  month :: nat
  date :: nat
  hours :: nat
  minutes :: nat
  seconds :: nat
  milliseconds :: nat

definition utc_fields_of :: "nat \<Rightarrow> utc_fields" where
  "utc_fields_of t =
     (let day = t div 86400000;
          ms = t mod 86400000;
          (y, doy) = yearFromDay 1970 day;
          (m, d) = monthFromDay (monthLengths y) 1 doy
      in \<lparr>year = y, month = m, date = Suc d,
          hours = ms div 3600000, minutes = ms div 60000 mod 60,
          seconds = ms div 1000 mod 60, milliseconds = ms mod 1000\<rparr>)"

definition render :: "utc_fields \<Rightarrow> string" where
  "render f =
     (if year f \<le> 9999 then pad 4 (year f) else CHR ''+'' # pad 6 (year f))
     @ ''-'' @ pad 2 (month f) @ ''-'' @ pad 2 (date f)
     @ ''T'' @ pad 2 (hours f) @ '':'' @ pad 2 (minutes f)
     @ '':'' @ pad 2 (seconds f) @ ''.'' @ pad 3 (milliseconds f) @ ''Z''"

definition toISOString :: "nat \<Rightarrow> string" where
  "toISOString t = render (utc_fields_of t)"

text \<open>
  The date-time format such a timestamp is read in: four digits of year,
  two of month, day, hour, minute and second, three of milliseconds, with the
  separators \<open>- - T : : .\<close> and the final \<open>Z\<close>; the month within 1-12, the
  day within the month's length in that year, the time within 23:59:59.
\<close>

definition is_digit :: "char \<Rightarrow> bool" where
  "is_digit c = (c \<in> set ''0123456789'')"

definition digit_val :: "char \<Rightarrow> nat" where
  "digit_val c = of_char c - 48"

definition nat_of_string :: "string \<Rightarrow> nat" where
  "nat_of_string s = foldl (\<lambda>a c. 10 * a + digit_val c) 0 s"

definition field :: "string \<Rightarrow> nat \<Rightarrow> nat \<Rightarrow> string" where
  "field s i n = take n (drop i s)"

definition parse_fields :: "string \<Rightarrow> utc_fields" where
  "parse_fields s =
     \<lparr>year = nat_of_string (field s 0 4), month = nat_of_string (field s 5 2),
      date = nat_of_string (field s 8 2), hours = nat_of_string (field s 11 2),
      minutes = nat_of_string (field s 14 2), seconds = nat_of_string (field s 17 2),
      milliseconds = nat_of_string (field s 20 3)\<rparr>"

definition valid_fields :: "utc_fields \<Rightarrow> bool" where
  "valid_fields f =
     (1 \<le> month f \<and> month f \<le> 12 \<and>
      1 \<le> date f \<and> date f \<le> monthLengths (year f) ! (month f - 1) \<and>
      hours f \<le> 23 \<and> minutes f \<le> 59 \<and> seconds f \<le> 59)"

definition iso_date_time :: "string \<Rightarrow> bool" where
  "iso_date_time s =
     (length s = 24 \<and>
      list_all is_digit (field s 0 4) \<and> field s 4 1 = ''-'' \<and>
      list_all is_digit (field s 5 2) \<and> field s 7 1 = ''-'' \<and>
      list_all is_digit (field s 8 2) \<and> field s 10 1 = ''T'' \<and>
      list_all is_digit (field s 11 2) \<and> field s 13 1 = '':'' \<and>
      list_all is_digit (field s 14 2) \<and> field s 16 1 = '':'' \<and>
      list_all is_digit (field s 17 2) \<and> field s 19 1 = ''.'' \<and>
      list_all is_digit (field s 20 3) \<and> field s 23 1 = ''Z'' \<and>
      valid_fields (parse_fields s))"

text \<open>
  A closed form for the day on which year \<open>y\<close> starts, up to a constant:
  from a year \<open>y \<ge> 1\<close> to the next it grows by the length of year
  \<open>y\<close>. The proofs measure \<open>yearFromDay\<close> against it.
\<close>

definition daysBeforeYear :: "nat \<Rightarrow> int" where
  "daysBeforeYear y =
     365 * int y + int ((y - 1) div 4) - int ((y - 1) div 100) + int ((y - 1) div 400)"

section \<open>The liveness endpoint (lines 54-57)\<close>

text \<open>
  The handler answers with the rendering of the clock reading \<open>now\<close> taken
  while it runs. \<open>health_calls\<close> is a run of successive requests, the
  \<open>i\<close>-th handled when the clock reads \<open>clock ! i\<close>.
\<close>

definition get_health :: "nat \<Rightarrow> 'j reply" where
  "get_health now =
     \<lparr>res_status = 200,
      res_body = JObject [(''status'', JString ''healthy''),
                          (''timestamp'', JString (toISOString now))]\<rparr>"

definition health_calls :: "nat list \<Rightarrow> 'j reply list" where
  "health_calls clock = map get_health clock"

section \<open>Properties\<close>

subsection \<open>Auxiliary facts\<close>

lemma fetches_append: "fetches (xs @ ys) = fetches xs @ fetches ys"
  by (induction xs rule: fetches.induct) simp_all

lemma armed_append: "armed (xs @ ys) = foldl armed_step (armed xs) ys"
  by (simp add: armed_def)

lemma indexOf_question:
  "CHR ''?'' \<notin> set p \<Longrightarrow> indexOf (p @ CHR ''?'' # r) ''?'' = int (length p)"
  by (induction p) auto

lemma indexOf_none:
  "CHR ''?'' \<notin> set p \<Longrightarrow> indexOf p ''?'' = - 1"
  by (induction p) auto

lemma inbound_query_present:
  "CHR ''?'' \<notin> set p \<Longrightarrow> inbound_query \<lparr>url = p @ CHR ''?'' # r, params_id = i\<rparr> = CHR ''?'' # r"
  by (simp add: inbound_query_def js_includes_def substring_def indexOf_question)

lemma inbound_query_absent:
  "CHR ''?'' \<notin> set p \<Longrightarrow> inbound_query \<lparr>url = p, params_id = i\<rparr> = []"
  by (simp add: inbound_query_def js_includes_def indexOf_none)

lemma snd_catch_block: "snd (catch_block t e tr) = tr @ [ClearTimeout t]"
  by (simp add: catch_block_def Let_def)

lemma fst_catch_block:
  "fst (catch_block t e tr) =
     Inl (if name e = ''AbortError''
          then Error ''Request timeout - Pokemon TCG API took too long to respond'' else e)"
  by (simp add: catch_block_def Let_def)

lemma fetches_pokemonApiRequest:
  "fetches (snd (pokemonApiRequest k ep q up tr)) =
     fetches tr @
     [(POKEMON_TCG_API @ ep @ (case q of None \<Rightarrow> [] | Some s \<Rightarrow> s),
       [(''Content-Type'', ''application/json''), (''Accept'', ''application/json'')]
         @ (if truthy (API_KEY k) then [(''X-Api-Key'', API_KEY k)] else []),
       Suc (length tr))]"
  by (simp add: pokemonApiRequest_def Let_def snd_catch_block fetches_append
      split: fetch_outcome.split sum.split)

lemma snd_relay: "fetches (snd (relay lp l r)) = fetches (snd r)"
  by (simp add: relay_def fetches_append split: prod.split sum.split)

text \<open>
  C1 (as amended). A request without an \<open>Origin\<close> header is allowed
  whatever the allow-list holds, and so is one whose \<open>Origin\<close> header is
  the empty string. A request with a non-empty \<open>Origin\<close> header is
  allowed exactly when the value is an entry of the allow-list, and is
  otherwise denied with the error \<open>Not allowed by CORS\<close>.
\<close>
theorem origin_gate_decision:
  "fst (cors_origin allowed None tr) = Inr True \<and>
   fst (cors_origin allowed (Some []) tr) = Inr True \<and>
   (origin \<noteq> [] \<longrightarrow>
      (fst (cors_origin allowed (Some origin) tr) = Inr True) = (origin \<in> set allowed)) \<and>
   (origin \<noteq> [] \<longrightarrow> origin \<notin> set allowed \<longrightarrow>
      fst (cors_origin allowed (Some origin) tr) = Inl (Error ''Not allowed by CORS''))"
  by (simp add: cors_origin_def truthy_def)

text \<open>C1, at the deployed allow-list: a listed origin passes, another one is denied.\<close>
theorem origin_gate_decision_witness:
  "fst (origin_gate (Some ''http://localhost:3000'') []) = Inr True \<and>
   fst (origin_gate (Some ''https://evil.example'') []) = Inl (Error ''Not allowed by CORS'')"
  using origin_gate_decision [of allowedOrigins "[]" "''http://localhost:3000''"]
    origin_gate_decision [of allowedOrigins "[]" "''https://evil.example''"]
  by (simp add: origin_gate_def allowedOrigins_def)

text \<open>
  C1 as stated fails: an \<open>Origin\<close> header that is present and empty is
  allowed although the empty string is no entry of the allow-list.
\<close>
theorem origin_gate_empty_origin_counterexample:
  "fst (origin_gate (Some []) []) = Inr True \<and> [] \<notin> set allowedOrigins"
  by (simp add: origin_gate_def cors_origin_def truthy_def allowedOrigins_def)

lemma fetched_urls_call:
  "fetched_urls (snd (pokemonApiRequest k ep q up tr)) =
     fetched_urls tr @ [POKEMON_TCG_API @ ep @ (case q of None \<Rightarrow> [] | Some s \<Rightarrow> s)]"
  by (simp add: fetched_urls_def fetches_pokemonApiRequest)

lemma fetched_urls_relay: "fetched_urls (snd (relay lp l r)) = fetched_urls (snd r)"
  by (simp add: fetched_urls_def snd_relay)

text \<open>
  C3. For the collection routes the helper is called on \<open>/sets\<close> (resp.
  \<open>/cards\<close>) and the upstream URL is the base, the path and the inbound
  query string, unchanged: nothing when the request target has no \<open>?\<close>,
  everything from its first \<open>?\<close> on otherwise.
\<close>
theorem collection_query_forwarding:
  assumes "CHR ''?'' \<notin> set path"
  shows "fetched_urls (snd (get_api_sets k \<lparr>url = path, params_id = i\<rparr> up tr)) =
           fetched_urls tr @ [POKEMON_TCG_API @ ''/sets''] \<and>
         fetched_urls (snd (get_api_sets k \<lparr>url = path @ CHR ''?'' # rest, params_id = i\<rparr> up tr)) =
           fetched_urls tr @ [POKEMON_TCG_API @ ''/sets'' @ CHR ''?'' # rest] \<and>
         fetched_urls (snd (get_api_cards k \<lparr>url = path, params_id = i\<rparr> up tr)) =
           fetched_urls tr @ [POKEMON_TCG_API @ ''/cards''] \<and>
         fetched_urls (snd (get_api_cards k \<lparr>url = path @ CHR ''?'' # rest, params_id = i\<rparr> up tr)) =
           fetched_urls tr @ [POKEMON_TCG_API @ ''/cards'' @ CHR ''?'' # rest]"
  using assms
  by (simp add: get_api_sets_def get_api_cards_def Let_def fetched_urls_relay fetched_urls_call
      inbound_query_present inbound_query_absent)

text \<open>C3, for \<open>GET /api/cards?q=name:pikachu\<close> and for \<open>GET /api/sets\<close>.\<close>
theorem collection_query_forwarding_witness:
  "CHR ''?'' \<notin> set ''/api/cards'' \<and>
   fetched_urls (snd (get_api_cards None \<lparr>url = ''/api/cards?q=name:pikachu'', params_id = []\<rparr>
                        (TimerFires :: unit fetch_outcome) [])) =
     [''https://api.pokemontcg.io/v2/cards?q=name:pikachu''] \<and>
   fetched_urls (snd (get_api_sets None \<lparr>url = ''/api/sets'', params_id = []\<rparr>
                        (TimerFires :: unit fetch_outcome) [])) =
     [''https://api.pokemontcg.io/v2/sets'']"
  using collection_query_forwarding [of "''/api/cards''" None "[]" "TimerFires :: unit fetch_outcome" "[]" "''q=name:pikachu''"]
    collection_query_forwarding [of "''/api/sets''" None "[]" "TimerFires :: unit fetch_outcome" "[]" "[]"]
  by (simp add: POKEMON_TCG_API_def fetched_urls_def)

text \<open>
  C4. For the by-id routes the upstream URL is the base followed by
  \<open>/sets/{id}\<close> (resp. \<open>/cards/{id}\<close>) and nothing else: the request
  target \<open>req.url\<close>, and so any query string it carries, has no influence
  on what the handler does.
\<close>
theorem by_id_drops_query:
  "fetched_urls (snd (get_api_sets_id k \<lparr>url = u, params_id = i\<rparr> up tr)) =
     fetched_urls tr @ [POKEMON_TCG_API @ ''/sets/'' @ i] \<and>
   fetched_urls (snd (get_api_cards_id k \<lparr>url = u, params_id = i\<rparr> up tr)) =
     fetched_urls tr @ [POKEMON_TCG_API @ ''/cards/'' @ i] \<and>
   get_api_sets_id k \<lparr>url = u, params_id = i\<rparr> up tr =
     get_api_sets_id k \<lparr>url = u', params_id = i\<rparr> up tr \<and>
   get_api_cards_id k \<lparr>url = u, params_id = i\<rparr> up tr =
     get_api_cards_id k \<lparr>url = u', params_id = i\<rparr> up tr"
  by (simp add: get_api_sets_id_def get_api_cards_id_def fetched_urls_relay fetched_urls_call)

text \<open>
  C10. For every value of the route parameter, the by-id handlers issue one
  call whose URL is the fixed prefix followed by that value as it is: no
  encoding, no escaping, no validation.
\<close>
theorem by_id_interpolation:
  "(\<exists>hs c. fetches (snd (get_api_sets_id k req up tr)) =
      fetches tr @ [(''https://api.pokemontcg.io/v2/sets/'' @ params_id req, hs, c)]) \<and>
   (\<exists>hs c. fetches (snd (get_api_cards_id k req up tr)) =
      fetches tr @ [(''https://api.pokemontcg.io/v2/cards/'' @ params_id req, hs, c)])"
  by (simp add: get_api_sets_id_def get_api_cards_id_def snd_relay fetches_pokemonApiRequest
      POKEMON_TCG_API_def)

lemma fetched_headers_call:
  "fetched_headers (snd (pokemonApiRequest k ep q up tr)) =
     fetched_headers tr @
     [[(''Content-Type'', ''application/json''), (''Accept'', ''application/json'')]
        @ (if truthy (API_KEY k) then [(''X-Api-Key'', API_KEY k)] else [])]"
  by (simp add: fetched_headers_def fetches_pokemonApiRequest)

text \<open>
  C5 (as amended). Every call of the helper issues its outbound request,
  whatever the key. With the environment variable unset the request carries
  the two content headers only; with the variable set to a non-empty value
  it carries \<open>X-Api-Key\<close> with exactly that value.
\<close>
theorem api_key_header:
  "fetched_headers (snd (pokemonApiRequest None ep q up tr)) =
     fetched_headers tr @
       [[(''Content-Type'', ''application/json''), (''Accept'', ''application/json'')]] \<and>
   (key \<noteq> [] \<longrightarrow>
      fetched_headers (snd (pokemonApiRequest (Some key) ep q up tr)) =
        fetched_headers tr @
          [[(''Content-Type'', ''application/json''), (''Accept'', ''application/json''),
            (''X-Api-Key'', key)]])"
  by (simp add: fetched_headers_call API_KEY_def or_else_def truthy_def)

text \<open>C5, for the key \<open>s3cret\<close>.\<close>
theorem api_key_header_witness:
  "fetched_headers (snd (pokemonApiRequest (Some ''s3cret'') ''/cards'' None
                           (TimerFires :: unit fetch_outcome) [])) =
     [[(''Content-Type'', ''application/json''), (''Accept'', ''application/json''),
       (''X-Api-Key'', ''s3cret'')]]"
proof -
  have "fetched_headers [] = []"
    by (simp add: fetched_headers_def)
  with api_key_header [of "''/cards''" None "TimerFires :: unit fetch_outcome" "[]" "''s3cret''"]
  show ?thesis
    by simp
qed

text \<open>
  C5 as stated fails: with the variable set to the empty string the outbound
  request carries no \<open>X-Api-Key\<close> header.
\<close>
theorem api_key_set_empty_counterexample:
  "fetched_headers (snd (pokemonApiRequest (Some []) ''/cards'' None
                           (TimerFires :: unit fetch_outcome) [])) =
     [[(''Content-Type'', ''application/json''), (''Accept'', ''application/json'')]]"
proof -
  have "fetched_headers [] = []"
    by (simp add: fetched_headers_def)
  then show ?thesis
    by (simp add: fetched_headers_call API_KEY_def or_else_def truthy_def)
qed

text \<open>
  C9. A key configured as the empty string is stored as the empty string,
  as an unset key is; the helper then behaves exactly as with no key, and the
  outbound request has no \<open>X-Api-Key\<close> header.
\<close>
theorem empty_api_key_is_unset:
  "API_KEY (Some []) = [] \<and> API_KEY (Some []) = API_KEY None \<and>
   pokemonApiRequest (Some []) ep q up tr = pokemonApiRequest None ep q up tr \<and>
   fetched_headers (snd (pokemonApiRequest (Some []) ep q up tr)) =
     fetched_headers tr @
       [[(''Content-Type'', ''application/json''), (''Accept'', ''application/json'')]]"
proof -
  have key: "API_KEY (Some []) = []" "API_KEY None = []"
    by (simp_all add: API_KEY_def or_else_def truthy_def)
  have same: "pokemonApiRequest (Some []) ep q up tr = pokemonApiRequest None ep q up tr"
    unfolding pokemonApiRequest_def key ..
  have "fetched_headers (snd (pokemonApiRequest (Some []) ep q up tr)) =
     fetched_headers tr @
       [[(''Content-Type'', ''application/json''), (''Accept'', ''application/json'')]]"
    by (simp add: fetched_headers_call key truthy_def)
  with key same show ?thesis
    by simp
qed

lemma fst_relay:
  "fst (relay lp l r) =
     (case fst r of
        Inr d \<Rightarrow> \<lparr>res_status = 200, res_body = Upstream d\<rparr>
      | Inl e \<Rightarrow> error_reply l (message e))"
  by (simp add: relay_def error_reply_def split: prod.split sum.split)

lemma fst_pokemonApiRequest:
  "fst (pokemonApiRequest k ep q up tr) =
     (case up of
        TimerFires \<Rightarrow>
          Inl (Error ''Request timeout - Pokemon TCG API took too long to respond'')
      | Rejects err \<Rightarrow> fst (catch_block 0 err [])
      | Resolves r \<Rightarrow>
          if \<not> ok r then
            (case text_result r of
               Inl err \<Rightarrow> fst (catch_block 0 err [])
             | Inr t \<Rightarrow>
                 Inl (Error (''Pokemon TCG API error: '' @ string_of_nat (status r)
                             @ '' '' @ statusText r)))
          else json_result r)"
  by (simp add: pokemonApiRequest_def Let_def fst_catch_block AbortError_def Error_def
      split: fetch_outcome.split sum.split)

lemma forwarding_replies_Inl:
  "(\<And>ep q. fst (pokemonApiRequest k ep q up tr) = Inl e) \<Longrightarrow>
   forwarding_replies k req up tr = error_replies (message e)"
  by (simp add: forwarding_replies_def error_replies_def get_api_sets_def get_api_sets_id_def
      get_api_cards_def get_api_cards_id_def Let_def fst_relay)

lemma forwarding_replies_Inr:
  "(\<And>ep q. fst (pokemonApiRequest k ep q up tr) = Inr d) \<Longrightarrow>
   forwarding_replies k req up tr = replicate 4 \<lparr>res_status = 200, res_body = Upstream d\<rparr>"
  by (simp add: forwarding_replies_def get_api_sets_def get_api_sets_id_def
      get_api_cards_def get_api_cards_id_def Let_def fst_relay numeral_eq_Suc)

text \<open>
  C2 (as amended). Whatever the upstream outcome, each forwarding route
  answers either 200 with the upstream payload or 500 with the body
  \<open>{error: label of the route, message: detail}\<close>. The detail is the
  timeout message when the timer fires (or the error is an \<open>AbortError\<close>),
  the message of the transport error when \<open>fetch\<close> or the reading of an
  error body rejects, the message of the parse error when \<open>response.json()\<close>
  rejects, and \<open>Pokemon TCG API error: status reason\<close> when the upstream
  status is outside 200-299 and its body has been read: the upstream status
  is never forwarded.
\<close>
theorem error_normalization:
  fixes r :: "'j response" and up :: "'j fetch_outcome"
  shows
  "forwarding_replies k req (TimerFires :: 'j fetch_outcome) tr =
     error_replies ''Request timeout - Pokemon TCG API took too long to respond'' \<and>
   (name err = ''AbortError'' \<longrightarrow>
      forwarding_replies k req (Rejects err :: 'j fetch_outcome) tr =
        error_replies ''Request timeout - Pokemon TCG API took too long to respond'') \<and>
   (name err \<noteq> ''AbortError'' \<longrightarrow>
      forwarding_replies k req (Rejects err :: 'j fetch_outcome) tr = error_replies (message err)) \<and>
   (\<not> ok r \<longrightarrow> text_result r = Inr errorText \<longrightarrow>
      forwarding_replies k req (Resolves r) tr =
        error_replies (''Pokemon TCG API error: '' @ string_of_nat (status r)
                       @ '' '' @ statusText r)) \<and>
   (\<not> ok r \<longrightarrow> text_result r = Inl err \<longrightarrow> name err \<noteq> ''AbortError'' \<longrightarrow>
      forwarding_replies k req (Resolves r) tr = error_replies (message err)) \<and>
   (\<not> ok r \<longrightarrow> text_result r = Inl err \<longrightarrow> name err = ''AbortError'' \<longrightarrow>
      forwarding_replies k req (Resolves r) tr =
        error_replies ''Request timeout - Pokemon TCG API took too long to respond'') \<and>
   (ok r \<longrightarrow> json_result r = Inl err \<longrightarrow>
      forwarding_replies k req (Resolves r) tr = error_replies (message err)) \<and>
   (ok r \<longrightarrow> json_result r = Inr d \<longrightarrow>
      forwarding_replies k req (Resolves r) tr =
        replicate 4 \<lparr>res_status = 200, res_body = Upstream d\<rparr>) \<and>
   ((\<exists>d. forwarding_replies k req up tr =
           replicate 4 \<lparr>res_status = 200, res_body = Upstream d\<rparr>) \<or>
    (\<exists>detail. forwarding_replies k req up tr = error_replies detail))"
proof -
  let ?timeout = "''Request timeout - Pokemon TCG API took too long to respond''"
  have msg: "message (Error m) = m" for m
    by (simp add: Error_def)
  have c1: "forwarding_replies k req (TimerFires :: 'j fetch_outcome) tr = error_replies ?timeout"
    using forwarding_replies_Inl [of k "TimerFires :: 'j fetch_outcome" tr "Error ?timeout" req]
    by (simp add: fst_pokemonApiRequest msg)
  have c2: "forwarding_replies k req (Rejects err :: 'j fetch_outcome) tr = error_replies ?timeout"
    if "name err = ''AbortError''"
    using forwarding_replies_Inl [of k "Rejects err :: 'j fetch_outcome" tr "Error ?timeout" req] that
    by (simp add: fst_pokemonApiRequest fst_catch_block msg)
  have c3: "forwarding_replies k req (Rejects err :: 'j fetch_outcome) tr = error_replies (message err)"
    if "name err \<noteq> ''AbortError''"
    using forwarding_replies_Inl [of k "Rejects err :: 'j fetch_outcome" tr err req] that
    by (simp add: fst_pokemonApiRequest fst_catch_block)
  have c4: "forwarding_replies k req (Resolves r) tr =
      error_replies (''Pokemon TCG API error: '' @ string_of_nat (status r) @ '' '' @ statusText r)"
    if "\<not> ok r" "text_result r = Inr errorText"
    using forwarding_replies_Inl [of k "Resolves r" tr
        "Error (''Pokemon TCG API error: '' @ string_of_nat (status r) @ '' '' @ statusText r)" req]
      that
    by (simp add: fst_pokemonApiRequest msg)
  have c4': "forwarding_replies k req (Resolves r) tr = error_replies (message err)"
    if "\<not> ok r" "text_result r = Inl err" "name err \<noteq> ''AbortError''"
    using forwarding_replies_Inl [of k "Resolves r" tr err req] that
    by (simp add: fst_pokemonApiRequest fst_catch_block)
  have c4'': "forwarding_replies k req (Resolves r) tr = error_replies ?timeout"
    if "\<not> ok r" "text_result r = Inl err" "name err = ''AbortError''"
    using forwarding_replies_Inl [of k "Resolves r" tr "Error ?timeout" req] that
    by (simp add: fst_pokemonApiRequest fst_catch_block msg)
  have c5: "forwarding_replies k req (Resolves r) tr = error_replies (message err)"
    if "ok r" "json_result r = Inl err"
    using forwarding_replies_Inl [of k "Resolves r" tr err req] that
    by (simp add: fst_pokemonApiRequest)
  have c6: "forwarding_replies k req (Resolves r) tr =
      replicate 4 \<lparr>res_status = 200, res_body = Upstream d\<rparr>"
    if "ok r" "json_result r = Inr d"
    using forwarding_replies_Inr [of k "Resolves r" tr d req] that
    by (simp add: fst_pokemonApiRequest)
  have c7: "(\<exists>d. forwarding_replies k req up tr =
           replicate 4 \<lparr>res_status = 200, res_body = Upstream d\<rparr>) \<or>
    (\<exists>detail. forwarding_replies k req up tr = error_replies detail)"
  proof (cases "fst (pokemonApiRequest k [] None up tr)")
    case (Inl e)
    have "fst (pokemonApiRequest k ep q up tr) = fst (pokemonApiRequest k [] None up tr)" for ep q
      by (simp add: fst_pokemonApiRequest)
    with Inl forwarding_replies_Inl [of k up tr e req] show ?thesis
      by auto
  next
    case (Inr d)
    have "fst (pokemonApiRequest k ep q up tr) = fst (pokemonApiRequest k [] None up tr)" for ep q
      by (simp add: fst_pokemonApiRequest)
    with Inr forwarding_replies_Inr [of k up tr d req] show ?thesis
      by auto
  qed
  from c1 c2 c3 c4 c4' c4'' c5 c6 c7 show ?thesis
    by blast
qed

text \<open>
  C2, for an upstream \<open>404 Not Found\<close> whose body is read, for a transport
  failure and for a body that does not parse.
\<close>
theorem error_normalization_witness:
  "forwarding_replies None \<lparr>url = ''/api/sets'', params_id = ''base1''\<rparr>
     (Resolves \<lparr>status = 404, statusText = ''Not Found'',
                text_result = Inr ''{}'', json_result = Inr ()\<rparr>) [] =
     [error_reply ''Failed to fetch sets'' ''Pokemon TCG API error: 404 Not Found'',
      error_reply ''Failed to fetch set'' ''Pokemon TCG API error: 404 Not Found'',
      error_reply ''Failed to fetch cards'' ''Pokemon TCG API error: 404 Not Found'',
      error_reply ''Failed to fetch card'' ''Pokemon TCG API error: 404 Not Found''] \<and>
   forwarding_replies None \<lparr>url = ''/api/sets'', params_id = ''base1''\<rparr>
     (Rejects \<lparr>name = ''TypeError'', message = ''fetch failed''\<rparr> :: unit fetch_outcome) [] =
     error_replies ''fetch failed'' \<and>
   forwarding_replies None \<lparr>url = ''/api/sets'', params_id = ''base1''\<rparr>
     (Resolves \<lparr>status = 200, statusText = ''OK'', text_result = Inr ''<html>'',
                json_result = Inl \<lparr>name = ''SyntaxError'', message = ''Unexpected token''\<rparr>\<rparr>
        :: unit fetch_outcome) [] =
     error_replies ''Unexpected token''"
proof -
  let ?req = "\<lparr>url = ''/api/sets'', params_id = ''base1''\<rparr>"
  let ?r404 = "\<lparr>status = 404, statusText = ''Not Found'',
                text_result = Inr ''{}'', json_result = Inr ()\<rparr>"
  let ?r200 = "\<lparr>status = 200, statusText = ''OK'', text_result = Inr ''<html>'',
                json_result = Inl \<lparr>name = ''SyntaxError'', message = ''Unexpected token''\<rparr>\<rparr>
                :: unit response"
  have "string_of_nat 404 = ''404''"
    by (simp add: string_of_nat.simps digit_char_def)
  with error_normalization [of None ?req "[]" "\<lparr>name = ''TypeError'', message = ''fetch failed''\<rparr>"
      ?r404 "''{}''" "()" "TimerFires :: unit fetch_outcome"]
    error_normalization [of None ?req "[]" "\<lparr>name = ''SyntaxError'', message = ''Unexpected token''\<rparr>"
      ?r200 "[]" "()" "TimerFires :: unit fetch_outcome"]
  show ?thesis
    by (simp add: ok_def error_replies_def)
qed

text \<open>
  C2 as stated fails: when the upstream answers \<open>404 Not Found\<close> and reading
  its body rejects, the \<open>catch\<close> block rethrows that error, and the message
  the caller receives has neither the status code nor the reason phrase.
\<close>
theorem error_body_unread_counterexample:
  "forwarding_replies None \<lparr>url = ''/api/sets'', params_id = ''base1''\<rparr>
     (Resolves \<lparr>status = 404, statusText = ''Not Found'',
                text_result = Inl \<lparr>name = ''TypeError'', message = ''terminated''\<rparr>,
                json_result = Inr ()\<rparr>) [] =
     error_replies ''terminated'' \<and>
   \<not> js_includes ''terminated'' ''404'' \<and> \<not> js_includes ''terminated'' ''Not Found''"
proof -
  have "forwarding_replies None \<lparr>url = ''/api/sets'', params_id = ''base1''\<rparr>
     (Resolves \<lparr>status = 404, statusText = ''Not Found'',
                text_result = Inl \<lparr>name = ''TypeError'', message = ''terminated''\<rparr>,
                json_result = Inr ()\<rparr>) [] =
     error_replies ''terminated''"
    by (rule forwarding_replies_Inl [where e = "\<lparr>name = ''TypeError'', message = ''terminated''\<rparr>",
          simplified])
      (simp add: fst_pokemonApiRequest fst_catch_block ok_def)
  then show ?thesis
    by (simp add: js_includes_def)
qed

lemma armed_relay: "armed (snd (relay lp l r)) = armed (snd r)"
  by (simp add: relay_def armed_append split: prod.split sum.split)

lemma trace_TimerFires:
  "pokemonApiRequest k ep q TimerFires tr =
     (Inl (Error ''Request timeout - Pokemon TCG API took too long to respond''),
      tr @ [ConsoleLog (''Fetching: '' @ POKEMON_TCG_API @ ep @ (case q of None \<Rightarrow> [] | Some s \<Rightarrow> s)),
            NewAbortController (length tr + 1),
            SetTimeout (length tr + 2) 30000 (length tr + 1),
            Fetch (POKEMON_TCG_API @ ep @ (case q of None \<Rightarrow> [] | Some s \<Rightarrow> s))
              ([(''Content-Type'', ''application/json''), (''Accept'', ''application/json'')]
                 @ (if truthy (API_KEY k) then [(''X-Api-Key'', API_KEY k)] else []))
              (length tr + 1),
            TimerFired (length tr + 2),
            Abort (length tr + 1),
            ClearTimeout (length tr + 2)])"
  by (simp add: pokemonApiRequest_def Let_def catch_block_def AbortError_def)

lemma trace_prefix:
  "\<exists>rest. snd (pokemonApiRequest k ep q up tr) =
     tr @ [ConsoleLog (''Fetching: '' @ POKEMON_TCG_API @ ep @ (case q of None \<Rightarrow> [] | Some s \<Rightarrow> s)),
           NewAbortController (length tr + 1),
           SetTimeout (length tr + 2) 30000 (length tr + 1),
           Fetch (POKEMON_TCG_API @ ep @ (case q of None \<Rightarrow> [] | Some s \<Rightarrow> s))
             ([(''Content-Type'', ''application/json''), (''Accept'', ''application/json'')]
                @ (if truthy (API_KEY k) then [(''X-Api-Key'', API_KEY k)] else []))
             (length tr + 1)] @ rest \<and>
     ClearTimeout (length tr + 2) \<in> set rest \<and>
     foldl armed_step (armed tr @ [length tr + 2]) rest = removeAll (length tr + 2) (armed tr)"
  by (simp add: pokemonApiRequest_def Let_def catch_block_def
      split: fetch_outcome.split sum.split)

text \<open>
  C6. Every call of the helper arms a timer of 30000 ms that aborts the
  controller whose signal the outbound call carries, immediately before it
  issues the call. When the timer fires before \<open>fetch\<close> settles, the
  controller is aborted, the helper fails with the timeout error, and each
  forwarding route answers 500 with the timeout message.
\<close>
theorem timeout_behaviour:
  fixes up :: "'j fetch_outcome"
  shows
  "(\<exists>url hs rest. snd (pokemonApiRequest k ep q up tr) =
      tr @ [ConsoleLog (''Fetching: '' @ url),
            NewAbortController (length tr + 1),
            SetTimeout (length tr + 2) 30000 (length tr + 1),
            Fetch url hs (length tr + 1)] @ rest) \<and>
   (\<exists>url hs. pokemonApiRequest k ep q (TimerFires :: 'j fetch_outcome) tr =
      (Inl (Error ''Request timeout - Pokemon TCG API took too long to respond''),
       tr @ [ConsoleLog (''Fetching: '' @ url),
             NewAbortController (length tr + 1),
             SetTimeout (length tr + 2) 30000 (length tr + 1),
             Fetch url hs (length tr + 1),
             TimerFired (length tr + 2),
             Abort (length tr + 1),
             ClearTimeout (length tr + 2)])) \<and>
   forwarding_replies k req (TimerFires :: 'j fetch_outcome) tr =
     error_replies ''Request timeout - Pokemon TCG API took too long to respond''"
proof -
  have a: "\<exists>url hs rest. snd (pokemonApiRequest k ep q up tr) =
      tr @ [ConsoleLog (''Fetching: '' @ url),
            NewAbortController (length tr + 1),
            SetTimeout (length tr + 2) 30000 (length tr + 1),
            Fetch url hs (length tr + 1)] @ rest"
    using trace_prefix [of k ep q up tr] by blast
  have b: "\<exists>url hs. pokemonApiRequest k ep q (TimerFires :: 'j fetch_outcome) tr =
      (Inl (Error ''Request timeout - Pokemon TCG API took too long to respond''),
       tr @ [ConsoleLog (''Fetching: '' @ url),
             NewAbortController (length tr + 1),
             SetTimeout (length tr + 2) 30000 (length tr + 1),
             Fetch url hs (length tr + 1),
             TimerFired (length tr + 2),
             Abort (length tr + 1),
             ClearTimeout (length tr + 2)])"
    using trace_TimerFires [of k ep q tr] by blast
  have c: "forwarding_replies k req (TimerFires :: 'j fetch_outcome) tr =
     error_replies ''Request timeout - Pokemon TCG API took too long to respond''"
    using forwarding_replies_Inl [of k "TimerFires :: 'j fetch_outcome" tr
        "Error ''Request timeout - Pokemon TCG API took too long to respond''" req]
    by (simp add: fst_pokemonApiRequest Error_def)
  from a b c show ?thesis
    by blast
qed

lemma armed_call:
  "armed (snd (pokemonApiRequest k ep q up tr)) = removeAll (length tr + 2) (armed tr)"
proof -
  obtain rest e1 e2 f where
    tr': "snd (pokemonApiRequest k ep q up tr) =
            tr @ [e1, e2, SetTimeout (length tr + 2) 30000 (length tr + 1), f] @ rest"
    and e: "e1 = ConsoleLog (''Fetching: '' @ POKEMON_TCG_API @ ep @ (case q of None \<Rightarrow> [] | Some s \<Rightarrow> s))"
      "e2 = NewAbortController (length tr + 1)"
      "f = Fetch (POKEMON_TCG_API @ ep @ (case q of None \<Rightarrow> [] | Some s \<Rightarrow> s))
             ([(''Content-Type'', ''application/json''), (''Accept'', ''application/json'')]
                @ (if truthy (API_KEY k) then [(''X-Api-Key'', API_KEY k)] else []))
             (length tr + 1)"
    and r: "foldl armed_step (armed tr @ [length tr + 2]) rest = removeAll (length tr + 2) (armed tr)"
    using trace_prefix [of k ep q up tr] by blast
  show ?thesis
    unfolding tr' using r by (simp add: armed_append e)
qed

text \<open>
  C7. Whatever the upstream outcome, \<open>clearTimeout\<close> runs on the timer the
  call has armed after the outbound call has been issued, and the timer is
  not armed when the helper returns: the timers armed then are those armed
  before the call, its own handle removed. A helper call or a handler started
  with no timer armed leaves none armed.
\<close>
theorem timer_cleanup:
  "(\<exists>e1 e2 f rest. snd (pokemonApiRequest k ep q up tr) =
      tr @ [e1, e2, SetTimeout (length tr + 2) 30000 (length tr + 1), f] @ rest \<and>
      ClearTimeout (length tr + 2) \<in> set rest) \<and>
   armed (snd (pokemonApiRequest k ep q up tr)) = removeAll (length tr + 2) (armed tr) \<and>
   length tr + 2 \<notin> set (armed (snd (pokemonApiRequest k ep q up tr))) \<and>
   armed (snd (pokemonApiRequest k ep q up [])) = [] \<and>
   armed (snd (get_api_sets k req up [])) = [] \<and>
   armed (snd (get_api_sets_id k req up [])) = [] \<and>
   armed (snd (get_api_cards k req up [])) = [] \<and>
   armed (snd (get_api_cards_id k req up [])) = []"
proof -
  have a: "\<exists>e1 e2 f rest. snd (pokemonApiRequest k ep q up tr) =
      tr @ [e1, e2, SetTimeout (length tr + 2) 30000 (length tr + 1), f] @ rest \<and>
      ClearTimeout (length tr + 2) \<in> set rest"
    using trace_prefix [of k ep q up tr] by blast
  have nil: "armed [] = []"
    by (simp add: armed_def)
  show ?thesis
    using a
    by (simp add: armed_call nil get_api_sets_def get_api_sets_id_def get_api_cards_def
        get_api_cards_id_def Let_def armed_relay)
qed

subsection \<open>The clock rendering\<close>

lemma mod_100_4: "(x :: nat) mod 100 = 0 \<Longrightarrow> x mod 4 = 0"
proof -
  assume a: "x mod 100 = 0"
  have "(4 :: nat) dvd 100" by simp
  then have "x mod 100 mod 4 = x mod 4" by (rule mod_mod_cancel)
  with a show ?thesis by simp
qed

lemma mod_400_100: "(x :: nat) mod 400 = 0 \<Longrightarrow> x mod 100 = 0"
proof -
  assume a: "x mod 400 = 0"
  have "(100 :: nat) dvd 400" by simp
  then have "x mod 400 mod 100 = x mod 100" by (rule mod_mod_cancel)
  with a show ?thesis by simp
qed

lemma daysBeforeYear_Suc:
  assumes "0 < y"
  shows "daysBeforeYear (Suc y) = daysBeforeYear y + int (daysInYear y)"
proof -
  obtain n where y: "y = Suc n"
    using assms by (cases y) auto
  show ?thesis
    unfolding y daysBeforeYear_def daysInYear_def isLeap_def
    using mod_100_4 [of "Suc n"] mod_400_100 [of "Suc n"]
    by (auto simp add: div_Suc)
qed

lemma yearFromDay_inv:
  "0 < y \<Longrightarrow> yearFromDay y d = (y', r) \<Longrightarrow>
   daysBeforeYear y + int d = daysBeforeYear y' + int r \<and> y \<le> y' \<and> r < daysInYear y'"
proof (induction y d rule: yearFromDay.induct)
  case (1 y d)
  show ?case
  proof (cases "daysInYear y \<le> d")
    case True
    then have "yearFromDay (Suc y) (d - daysInYear y) = (y', r)"
      using "1.prems"(2) by (simp add: yearFromDay.simps [of y d])
    with "1.IH" [OF True] have
      "daysBeforeYear (Suc y) + int (d - daysInYear y) = daysBeforeYear y' + int r"
      "Suc y \<le> y'" "r < daysInYear y'"
      by simp_all
    with True "1.prems"(1) show ?thesis
      by (simp add: daysBeforeYear_Suc)
  next
    case False
    then have "y' = y" "r = d"
      using "1.prems"(2) by (simp_all add: yearFromDay.simps [of y d])
    with False show ?thesis
      by simp
  qed
qed

lemma daysBeforeYear_mono:
  assumes "0 < a" "a \<le> b"
  shows "daysBeforeYear a \<le> daysBeforeYear b"
  using assms(2,1)
proof (induction b rule: dec_induct)
  case base
  show ?case by simp
next
  case (step n)
  then have "0 < n" by simp
  from daysBeforeYear_Suc [OF this] step show ?case
    by simp
qed

lemma year_bound:
  assumes "d < 2932897"
  shows "fst (yearFromDay 1970 d) \<le> 9999"
proof (rule ccontr)
  assume "\<not> fst (yearFromDay 1970 d) \<le> 9999"
  then have big: "10000 \<le> fst (yearFromDay 1970 d)"
    by simp
  obtain y r where yr: "yearFromDay 1970 d = (y, r)"
    by (cases "yearFromDay 1970 d")
  from yearFromDay_inv [OF _ yr] have "daysBeforeYear 1970 + int d = daysBeforeYear y + int r"
    by simp
  moreover from big yr have "daysBeforeYear 10000 \<le> daysBeforeYear y"
    by (intro daysBeforeYear_mono) simp_all
  moreover have "daysBeforeYear 10000 = 3652424" "daysBeforeYear 1970 = 719527"
    by (simp_all add: daysBeforeYear_def)
  ultimately show False
    using assms by simp
qed

lemma yearFromDay_inj:
  assumes "yearFromDay 1970 d1 = yearFromDay 1970 d2"
  shows "d1 = d2"
proof -
  obtain y r where a: "yearFromDay 1970 d1 = (y, r)"
    by (cases "yearFromDay 1970 d1")
  with assms have b: "yearFromDay 1970 d2 = (y, r)"
    by simp
  from yearFromDay_inv [OF _ a] yearFromDay_inv [OF _ b] show ?thesis
    by simp
qed

lemma monthFromDay_inv:
  "monthFromDay ls m d = (m', r) \<Longrightarrow>
   m \<le> m' \<and> m' \<le> m + length ls \<and> d = sum_list (take (m' - m) ls) + r \<and>
   (d < sum_list ls \<longrightarrow> m' < m + length ls \<and> r < ls ! (m' - m))"
proof (induction ls arbitrary: m d)
  case Nil
  then show ?case by simp
next
  case (Cons l ls)
  show ?case
  proof (cases "l \<le> d")
    case True
    with Cons.prems have "monthFromDay ls (Suc m) (d - l) = (m', r)"
      by simp
    from Cons.IH [OF this] have ih:
      "Suc m \<le> m'" "m' \<le> Suc m + length ls"
      "d - l = sum_list (take (m' - Suc m) ls) + r"
      "d - l < sum_list ls \<longrightarrow> m' < Suc m + length ls \<and> r < ls ! (m' - Suc m)"
      by simp_all
    from ih(1) have k: "m' - m = Suc (m' - Suc m)"
      by simp
    from ih True show ?thesis
      unfolding k by auto
  next
    case False
    with Cons.prems show ?thesis
      by simp
  qed
qed

lemma sum_monthLengths: "sum_list (monthLengths y) = daysInYear y"
  by (simp add: monthLengths_def daysInYear_def)

lemma length_monthLengths: "length (monthLengths y) = 12"
  by (simp add: monthLengths_def)

lemma replicate_numeral: "replicate (numeral k) x = x # replicate (pred_numeral k) x"
  by (simp add: numeral_eq_Suc)

lemma digit_cases:
  "d < 10 \<Longrightarrow> d = 0 \<or> d = 1 \<or> d = 2 \<or> d = 3 \<or> d = 4 \<or> d = 5 \<or> d = 6 \<or> d = 7 \<or> d = 8 \<or> d = (9 :: nat)"
  by arith

lemma digit_val_digit_char: "d < 10 \<Longrightarrow> digit_val (digit_char d) = d"
  using digit_cases [of d] by (auto simp: digit_val_def digit_char_def)

lemma is_digit_digit_char: "d < 10 \<Longrightarrow> is_digit (digit_char d)"
  using digit_cases [of d] by (auto simp: is_digit_def digit_char_def)

lemma nat_of_string_snoc: "nat_of_string (xs @ [c]) = 10 * nat_of_string xs + digit_val c"
  by (simp add: nat_of_string_def)

lemma nat_of_string_string_of_nat: "nat_of_string (string_of_nat n) = n"
proof (induction n rule: string_of_nat.induct)
  case (1 n)
  show ?case
  proof (cases "n < 10")
    case True
    then show ?thesis
      by (simp add: string_of_nat.simps [of n] nat_of_string_def digit_val_digit_char)
  next
    case False
    with "1.IH" show ?thesis
      by (simp add: string_of_nat.simps [of n] nat_of_string_snoc digit_val_digit_char)
  qed
qed

lemma digits_string_of_nat: "list_all is_digit (string_of_nat n)"
proof (induction n rule: string_of_nat.induct)
  case (1 n)
  show ?case
  proof (cases "n < 10")
    case True
    then show ?thesis
      by (simp add: string_of_nat.simps [of n] is_digit_digit_char)
  next
    case False
    with "1.IH" show ?thesis
      by (simp add: string_of_nat.simps [of n] is_digit_digit_char)
  qed
qed

lemma length_string_of_nat: "n < 10 ^ w \<Longrightarrow> 0 < w \<Longrightarrow> length (string_of_nat n) \<le> w"
proof (induction n arbitrary: w rule: string_of_nat.induct)
  case (1 n)
  show ?case
  proof (cases "n < 10")
    case True
    with "1.prems" show ?thesis
      by (simp add: string_of_nat.simps [of n] Suc_le_eq)
  next
    case False
    obtain v where w: "w = Suc v"
      using "1.prems"(2) by (cases w) auto
    from False "1.prems"(1) have "0 < v"
      unfolding w by (cases v) auto
    moreover from "1.prems"(1) have "n div 10 < 10 ^ v"
      unfolding w by (simp add: less_mult_imp_div_less mult.commute)
    ultimately have "length (string_of_nat (n div 10)) \<le> v"
      using "1.IH" [OF False] by simp
    with False show ?thesis
      by (simp add: string_of_nat.simps [of n] w)
  qed
qed

lemma nat_of_string_zeros: "nat_of_string (replicate k (CHR ''0'') @ s) = nat_of_string s"
proof -
  have "foldl (\<lambda>a c. 10 * a + digit_val c) 0 (replicate k (CHR ''0'')) = 0"
    by (induction k) (simp_all add: digit_val_def)
  then show ?thesis
    by (simp add: nat_of_string_def)
qed

lemma nat_of_string_pad: "nat_of_string (pad w n) = n"
  by (simp add: pad_def Let_def nat_of_string_zeros nat_of_string_string_of_nat)

lemma digits_pad: "list_all is_digit (pad w n)"
proof -
  have "list_all is_digit (replicate k (CHR ''0''))" for k
    by (induction k) (simp_all add: is_digit_def)
  then show ?thesis
    by (simp add: pad_def Let_def digits_string_of_nat)
qed

lemma length_pad: "n < 10 ^ w \<Longrightarrow> 0 < w \<Longrightarrow> length (pad w n) = w"
  using length_string_of_nat [of n w] by (simp add: pad_def Let_def)

lemma field_layout:
  assumes "length Y = 4" "length Mo = 2" "length Dd = 2" "length H = 2" "length Mi = 2"
    "length S = 2" "length L = 3"
  defines "s \<equiv> Y @ ''-'' @ Mo @ ''-'' @ Dd @ ''T'' @ H @ '':'' @ Mi @ '':'' @ S @ ''.'' @ L @ ''Z''"
  shows "length s = 24"
    and "field s 0 4 = Y" and "field s 4 (Suc 0) = ''-''"
    and "field s 5 2 = Mo" and "field s 7 (Suc 0) = ''-''"
    and "field s 8 2 = Dd" and "field s 10 (Suc 0) = ''T''"
    and "field s 11 2 = H" and "field s 13 (Suc 0) = '':''"
    and "field s 14 2 = Mi" and "field s 16 (Suc 0) = '':''"
    and "field s 17 2 = S" and "field s 19 (Suc 0) = ''.''"
    and "field s 20 3 = L" and "field s 23 (Suc 0) = ''Z''"
  using assms(1-7) unfolding s_def field_def by simp_all

lemma ms_decomp:
  "ms = ((ms div 3600000 * 60 + ms div 60000 mod 60) * 60 + ms div 1000 mod 60) * 1000
        + ms mod (1000 :: nat)"
proof -
  have a: "ms div 60000 = ms div 1000 div 60"
    using div_mult2_eq [of ms 1000 60] by simp
  have b: "ms div 3600000 = ms div 60000 div 60"
    using div_mult2_eq [of ms 60000 60] by simp
  have "ms = ms div 1000 * 1000 + ms mod 1000"
    by simp
  moreover have "ms div 1000 = ms div 1000 div 60 * 60 + ms div 1000 mod 60"
    by simp
  moreover have "ms div 60000 = ms div 60000 div 60 * 60 + ms div 60000 mod 60"
    by simp
  ultimately show ?thesis
    unfolding a [symmetric] b [symmetric] by metis
qed

lemma utc_fields_of_cases:
  obtains y doy m d where
    "yearFromDay 1970 (t div 86400000) = (y, doy)"
    "monthFromDay (monthLengths y) 1 doy = (m, d)"
    "utc_fields_of t =
       \<lparr>year = y, month = m, date = Suc d,
        hours = t mod 86400000 div 3600000, minutes = t mod 86400000 div 60000 mod 60,
        seconds = t mod 86400000 div 1000 mod 60, milliseconds = t mod 86400000 mod 1000\<rparr>"
proof -
  obtain y doy where a: "yearFromDay 1970 (t div 86400000) = (y, doy)"
    by (cases "yearFromDay 1970 (t div 86400000)")
  obtain m d where b: "monthFromDay (monthLengths y) 1 doy = (m, d)"
    by (cases "monthFromDay (monthLengths y) 1 doy")
  from a b that show ?thesis
    by (simp add: utc_fields_of_def Let_def)
qed

lemma utc_fields_of_inj:
  assumes "utc_fields_of t1 = utc_fields_of t2"
  shows "t1 = t2"
proof -
  obtain y1 doy1 m1 d1 where 1:
    "yearFromDay 1970 (t1 div 86400000) = (y1, doy1)"
    "monthFromDay (monthLengths y1) 1 doy1 = (m1, d1)"
    "utc_fields_of t1 =
       \<lparr>year = y1, month = m1, date = Suc d1,
        hours = t1 mod 86400000 div 3600000, minutes = t1 mod 86400000 div 60000 mod 60,
        seconds = t1 mod 86400000 div 1000 mod 60, milliseconds = t1 mod 86400000 mod 1000\<rparr>"
    by (rule utc_fields_of_cases)
  obtain y2 doy2 m2 d2 where 2:
    "yearFromDay 1970 (t2 div 86400000) = (y2, doy2)"
    "monthFromDay (monthLengths y2) 1 doy2 = (m2, d2)"
    "utc_fields_of t2 =
       \<lparr>year = y2, month = m2, date = Suc d2,
        hours = t2 mod 86400000 div 3600000, minutes = t2 mod 86400000 div 60000 mod 60,
        seconds = t2 mod 86400000 div 1000 mod 60, milliseconds = t2 mod 86400000 mod 1000\<rparr>"
    by (rule utc_fields_of_cases)
  from assms 1(3) 2(3) have eq: "y1 = y2" "m1 = m2" "d1 = d2"
    and h: "t1 mod 86400000 div 3600000 = t2 mod 86400000 div 3600000"
    and mi: "t1 mod 86400000 div 60000 mod 60 = t2 mod 86400000 div 60000 mod 60"
    and se: "t1 mod 86400000 div 1000 mod 60 = t2 mod 86400000 div 1000 mod 60"
    and ms: "t1 mod 86400000 mod 1000 = t2 mod 86400000 mod 1000"
    by simp_all
  from monthFromDay_inv [OF 1(2)] monthFromDay_inv [OF 2(2)] eq have "doy1 = doy2"
    by simp
  with 1(1) 2(1) eq have "t1 div 86400000 = t2 div 86400000"
    by (intro yearFromDay_inj) simp
  moreover have "t1 mod 86400000 = t2 mod 86400000"
    using ms_decomp [of "t1 mod 86400000"] ms_decomp [of "t2 mod 86400000"] h mi se ms
    by simp
  ultimately show ?thesis
    by (metis div_mult_mod_eq)
qed

lemma utc_fields_of_valid:
  assumes "t < 253402300800000"
  shows "year (utc_fields_of t) \<le> 9999" and "valid_fields (utc_fields_of t)"
    and "milliseconds (utc_fields_of t) \<le> 999"
proof -
  obtain y doy m d where 1:
    "yearFromDay 1970 (t div 86400000) = (y, doy)"
    "monthFromDay (monthLengths y) 1 doy = (m, d)"
    "utc_fields_of t =
       \<lparr>year = y, month = m, date = Suc d,
        hours = t mod 86400000 div 3600000, minutes = t mod 86400000 div 60000 mod 60,
        seconds = t mod 86400000 div 1000 mod 60, milliseconds = t mod 86400000 mod 1000\<rparr>"
    by (rule utc_fields_of_cases)
  from assms have "t div 86400000 < 2932897"
    by (simp add: less_mult_imp_div_less)
  from year_bound [OF this] 1(1) show "year (utc_fields_of t) \<le> 9999"
    by (simp add: 1(3))
  from yearFromDay_inv [OF _ 1(1)] have "doy < sum_list (monthLengths y)"
    by (simp add: sum_monthLengths)
  with monthFromDay_inv [OF 1(2)] have "1 \<le> m" "m < 13" "d < monthLengths y ! (m - 1)"
    by (simp_all add: length_monthLengths)
  moreover have "t mod 86400000 div 3600000 \<le> 23"
  proof -
    have "t mod 86400000 < 24 * 3600000"
      by simp
    then have "t mod 86400000 div 3600000 < 24"
      by (simp only: less_mult_imp_div_less)
    then show ?thesis by simp
  qed
  moreover have "t mod 86400000 div 60000 mod 60 \<le> 59" "t mod 86400000 div 1000 mod 60 \<le> 59"
    using mod_less_divisor [of 60 "t mod 86400000 div 60000"]
      mod_less_divisor [of 60 "t mod 86400000 div 1000"]
    by simp_all
  ultimately show "valid_fields (utc_fields_of t)"
    by (simp add: valid_fields_def 1(3))
  show "milliseconds (utc_fields_of t) \<le> 999"
    using mod_less_divisor [of 1000 "t mod 86400000"] by (simp add: 1(3))
qed

lemma monthLengths_le_31: "i < 12 \<Longrightarrow> monthLengths y ! i \<le> 31"
proof -
  assume "i < 12"
  then have "i = 0 \<or> i = 1 \<or> i = 2 \<or> i = 3 \<or> i = 4 \<or> i = 5 \<or> i = 6 \<or> i = 7 \<or> i = 8
      \<or> i = 9 \<or> i = 10 \<or> i = 11"
    by arith
  then show ?thesis
    by (auto simp: monthLengths_def)
qed

lemma render_layout:
  assumes "year f \<le> 9999" "valid_fields f" "milliseconds f \<le> 999"
  shows "parse_fields (render f) = f" and "iso_date_time (render f)"
proof -
  from assms(2) have m: "1 \<le> month f" "month f \<le> 12"
    and d: "1 \<le> date f" "date f \<le> monthLengths (year f) ! (month f - 1)"
    and t: "hours f \<le> 23" "minutes f \<le> 59" "seconds f \<le> 59"
    by (simp_all add: valid_fields_def)
  from m have "monthLengths (year f) ! (month f - 1) \<le> 31"
    by (intro monthLengths_le_31) simp
  with d have d': "date f \<le> 31"
    by simp
  have len: "length (pad 4 (year f)) = 4" "length (pad 2 (month f)) = 2"
    "length (pad 2 (date f)) = 2" "length (pad 2 (hours f)) = 2"
    "length (pad 2 (minutes f)) = 2" "length (pad 2 (seconds f)) = 2"
    "length (pad 3 (milliseconds f)) = 3"
    using assms(1,3) m d' t by (simp_all add: length_pad)
  have r: "render f = pad 4 (year f) @ ''-'' @ pad 2 (month f) @ ''-'' @ pad 2 (date f)
     @ ''T'' @ pad 2 (hours f) @ '':'' @ pad 2 (minutes f)
     @ '':'' @ pad 2 (seconds f) @ ''.'' @ pad 3 (milliseconds f) @ ''Z''"
    using assms(1) by (simp add: render_def)
  note lay = field_layout [OF len, folded r]
  show p: "parse_fields (render f) = f"
    by (simp add: parse_fields_def lay nat_of_string_pad)
  show "iso_date_time (render f)"
    unfolding iso_date_time_def p
    by (simp add: lay digits_pad assms(2))
qed

lemma toISOString_valid: "t < 253402300800000 \<Longrightarrow> iso_date_time (toISOString t)"
  unfolding toISOString_def by (intro render_layout utc_fields_of_valid)

lemma toISOString_inj:
  assumes "t1 < 253402300800000" "t2 < 253402300800000" "toISOString t1 = toISOString t2"
  shows "t1 = t2"
proof -
  have "utc_fields_of t1 = parse_fields (render (utc_fields_of t1))"
    by (intro render_layout(1) [symmetric] utc_fields_of_valid assms(1))
  also have "\<dots> = parse_fields (render (utc_fields_of t2))"
    using assms(3) by (simp add: toISOString_def)
  also have "\<dots> = utc_fields_of t2"
    by (intro render_layout(1) utc_fields_of_valid assms(2))
  finally show ?thesis
    by (rule utc_fields_of_inj)
qed

text \<open>
  C8 (as amended). Every \<open>GET /health\<close> answers 200 with the body
  \<open>{status: "healthy", timestamp}\<close>, the timestamp being the rendering of
  the clock reading; for a reading before the year 10000 it is a valid
  date-time in the format above. In a run of calls the answers are pairwise
  distinct exactly when the clock readings are: two calls that read the same
  millisecond carry the same timestamp.
\<close>
theorem health_endpoint:
  "res_status (get_health now :: 'j reply) = 200 \<and>
   res_body (get_health now :: 'j reply) =
     JObject [(''status'', JString ''healthy''), (''timestamp'', JString (toISOString now))] \<and>
   (now < 253402300800000 \<longrightarrow> iso_date_time (toISOString now)) \<and>
   ((\<forall>t \<in> set clock. t < 253402300800000) \<longrightarrow>
      distinct (health_calls clock :: 'j reply list) = distinct clock)"
proof -
  have "inj_on (get_health :: nat \<Rightarrow> 'j reply) (set clock)"
    if "\<forall>t \<in> set clock. t < 253402300800000"
  proof (rule inj_onI)
    fix a b
    assume "a \<in> set clock" "b \<in> set clock"
      and "(get_health a :: 'j reply) = get_health b"
    with that show "a = b"
      by (intro toISOString_inj) (simp_all add: get_health_def)
  qed
  then have "distinct (health_calls clock :: 'j reply list) = distinct clock"
    if "\<forall>t \<in> set clock. t < 253402300800000"
    using that by (auto simp: health_calls_def distinct_map)
  then show ?thesis
    by (simp add: get_health_def toISOString_valid)
qed

text \<open>C8, for the readings 1700000000000 and 1700000000001.\<close>
theorem health_endpoint_witness:
  "(get_health 1700000000000 :: unit reply) =
     \<lparr>res_status = 200,
      res_body = JObject [(''status'', JString ''healthy''),
                          (''timestamp'', JString ''2023-11-14T22:13:20.000Z'')]\<rparr> \<and>
   iso_date_time ''2023-11-14T22:13:20.000Z'' \<and>
   distinct (health_calls [1700000000000, 1700000000001] :: unit reply list)"
proof -
  have t: "toISOString 1700000000000 = ''2023-11-14T22:13:20.000Z''"
    by (simp add: toISOString_def utc_fields_of_def render_def yearFromDay.simps daysInYear_def
        isLeap_def monthLengths_def pad_def string_of_nat.simps digit_char_def Let_def
        replicate_numeral)
  from health_endpoint [where ?'j = unit, of 1700000000000 "[1700000000000, 1700000000001]"]
  show ?thesis
    by (simp add: t get_health_def)
qed

text \<open>
  C8 as stated fails: two successive calls handled while the clock reads the
  same millisecond give the same answer, timestamp included.
\<close>
theorem health_same_millisecond_counterexample:
  "sorted [1700000000000, 1700000000000 :: nat] \<and>
   \<not> distinct (health_calls [1700000000000, 1700000000000] :: unit reply list)"
  by (simp add: health_calls_def)

end
